theory Spec2Isabelle
  imports Main
begin

section \<open>Data model\<close>

text \<open>
  The repository holds three variants of one React component \<open>App\<close>:
  \<^item> the \<^emph>\<open>basic\<close> variant (first document of \<open>src/src/App.js\<close>): two fields, a 1500ms timer;
  \<^item> the \<^emph>\<open>validating\<close> variant (second document of \<open>src/src/App.js\<close>): five fields, a
    presence check with an alert, a console log, a 1500ms timer;
  \<^item> the \<^emph>\<open>webhook\<close> variant (\<open>src/unnamed/part_000\<close>): five fields, an awaited \<open>fetch\<close>
    inside \<open>try / catch / finally\<close>.

  JavaScript strings are modelled as \<^typ>\<open>string\<close>; a character beyond ASCII in a literal of
  the source is written as the bytes of its UTF-8 encoding. The code tests a string for its
  truthiness only, and a JavaScript string is falsy exactly when it is empty.
\<close>

record audit_result =
  directories :: "string list"
  missing :: "string list"
  aiMention :: bool
  recommendations :: "string list"

text \<open>
  The object literal \<open>simulatedResponse\<close>. It occurs three times in the source (basic variant
  lines 12-21, validating variant lines 91-100 of \<open>App.js\<close>, webhook variant lines 38-47 of
  \<open>part_000\<close>), each time with the same four properties and the same values.
\<close>

definition simulatedResponse :: audit_result where
  "simulatedResponse =
     \<lparr> directories = [''Google Business'', ''Yelp'', ''Bing Places''],
       missing = [''Yelp''],
       aiMention = False,
       recommendations =
         [''Create a Yelp profile with full business details.'',
          ''Add structured FAQ to your website (schema.org markup).'',
          ''Get mentioned on local blogs or Reddit threads.''] \<rparr>"

text \<open>
  The state held by the \<open>useState\<close> hooks. The basic variant has four hooks; the validating
  and the webhook variant have the same four and three more.
\<close>

record basic_state =
  business :: string
  location :: string
  results :: "audit_result option"
  loading :: bool

record lead_state = basic_state +
  contactName :: string
  phone :: string
  email :: string

text \<open>The initial values passed to \<open>useState\<close>.\<close>

definition initial_basic :: basic_state where
  "initial_basic = \<lparr> business = [], location = [], results = None, loading = False \<rparr>"

definition initial_lead :: lead_state where
  "initial_lead =
     \<lparr> business = [], location = [], results = None, loading = False,
       contactName = [], phone = [], email = [] \<rparr>"

section \<open>State setters\<close>

text \<open>
  The setters returned by \<open>useState\<close>: each replaces one state attribute and leaves the
  others as they are. They are defined on the common part of the two state records, so that
  they serve the three variants.
\<close>

definition setBusiness :: "string \<Rightarrow> 'a basic_state_scheme \<Rightarrow> 'a basic_state_scheme" where
  "setBusiness v s = s\<lparr>business := v\<rparr>"

definition setLocation :: "string \<Rightarrow> 'a basic_state_scheme \<Rightarrow> 'a basic_state_scheme" where
  "setLocation v s = s\<lparr>location := v\<rparr>"

definition setResults ::
  "audit_result option \<Rightarrow> 'a basic_state_scheme \<Rightarrow> 'a basic_state_scheme" where
  "setResults v s = s\<lparr>results := v\<rparr>"

definition setLoading :: "bool \<Rightarrow> 'a basic_state_scheme \<Rightarrow> 'a basic_state_scheme" where
  "setLoading v s = s\<lparr>loading := v\<rparr>"

definition setContactName :: "string \<Rightarrow> 'a lead_state_scheme \<Rightarrow> 'a lead_state_scheme" where
  "setContactName v s = s\<lparr>contactName := v\<rparr>"

definition setPhone :: "string \<Rightarrow> 'a lead_state_scheme \<Rightarrow> 'a lead_state_scheme" where
  "setPhone v s = s\<lparr>phone := v\<rparr>"

definition setEmail :: "string \<Rightarrow> 'a lead_state_scheme \<Rightarrow> 'a lead_state_scheme" where
  "setEmail v s = s\<lparr>email := v\<rparr>"

section \<open>Platform functions the code calls\<close>

text \<open>
  \<open>Array.prototype.join\<close> on an array of strings: the elements in order, the separator
  between each two of them, the empty string for the empty array.
\<close>

fun join :: "string \<Rightarrow> string list \<Rightarrow> string" where
  "join sep [] = []"
| "join sep [x] = x"
| "join sep (x # y # ys) = x @ sep @ join sep (y # ys)"

text \<open>
  Truthiness of a string value, as \<open>!x\<close> and \<open>x ? a : b\<close> test it: only the empty string
  is falsy.
\<close>

definition truthy :: "string \<Rightarrow> bool" where
  "truthy v = (v \<noteq> [])"

text \<open>
  An object literal whose property values are all strings, as an association list in the
  order of the literal.
\<close>

type_synonym js_object = "(string \<times> string) list"

text \<open>
  \<open>JSON.stringify\<close> on such an object, with no indentation. A string is quoted as
  ECMAScript's QuoteJSONString does: the double quote and the backslash are escaped, the
  control characters below 0x20 are written \<open>\b \t \n \f \r\<close> or \<open>\u00XX\<close> with
  lower-case hexadecimal digits, every other character stands for itself.
\<close>

definition hex_digit :: "nat \<Rightarrow> char" where
  "hex_digit n = ''0123456789abcdef'' ! (n mod 16)"

definition JSON_escape :: "char \<Rightarrow> string" where
  "JSON_escape c =
     (if c = CHR 0x08 then [CHR 0x5C, CHR ''b'']
      else if c = CHR 0x09 then [CHR 0x5C, CHR ''t'']
      else if c = CHR 0x0A then [CHR 0x5C, CHR ''n'']
      else if c = CHR 0x0C then [CHR 0x5C, CHR ''f'']
      else if c = CHR 0x0D then [CHR 0x5C, CHR ''r'']
      else if c = CHR 0x22 then [CHR 0x5C, CHR 0x22]
      else if c = CHR 0x5C then [CHR 0x5C, CHR 0x5C]
      else if (of_char c :: nat) < 0x20
        then [CHR 0x5C, CHR ''u'', CHR ''0'', CHR ''0'',
              hex_digit (of_char c div 16), hex_digit (of_char c)]
      else [c])"

definition JSON_quote :: "string \<Rightarrow> string" where
  "JSON_quote v = [CHR 0x22] @ concat (map JSON_escape v) @ [CHR 0x22]"

definition JSON_stringify :: "js_object \<Rightarrow> string" where
  "JSON_stringify obj =
     ''{'' @ join '','' (map (\<lambda>(k, v). JSON_quote k @ '':'' @ JSON_quote v) obj) @ ''}''"

section \<open>Effects, suspensions and settlements\<close>

text \<open>
  The \<open>init\<close> argument of \<open>fetch\<close>. Its property \<open>method\<close> is the field \<open>method'\<close> here.
\<close>

record request =
  method' :: string
  headers :: js_object
  body :: string

text \<open>
  How an awaited \<open>fetch\<close> settles: fulfilled with a response (its status and its body,
  whatever they are), or rejected with an error.
\<close>

datatype outcome = Fulfilled nat string | Rejected string

text \<open>What a handler does to the world outside the component's state.\<close>

datatype effect =
    Alert string
  | ConsoleLog string js_object
  | ConsoleError string string
  | Fetch string request

text \<open>
  Where a handler hands control back to the event loop with work outstanding:
  \<^item> \<open>Timeout r d\<close>: \<open>setTimeout(() => { setResults(r); setLoading(false); }, d)\<close>, the
    callback closing over the local \<open>simulatedResponse\<close>;
  \<^item> \<open>Await o\<close>: \<open>await fetch(...)\<close>, the rest of the \<open>async\<close> function closing over the
    five field values of the render in which the click happened, which it logs as \<open>o\<close>.
\<close>

datatype suspension = Timeout audit_result nat | Await js_object

section \<open>The submit handler \<open>runAudit\<close>\<close>

text \<open>
  A handler is given the state of the render it was created in and returns the state after
  its synchronous part, the effects of that part in order, and the suspension it leaves
  behind, if any.
\<close>

type_synonym 's handled = "'s \<times> effect list \<times> suspension option"

subsection \<open>Basic variant (\<open>App.js\<close>, first document, lines 10-26)\<close>

definition runAudit_basic :: "basic_state \<Rightarrow> basic_state handled" where
  "runAudit_basic s = (setLoading True s, [], Some (Timeout simulatedResponse 1500))"

text \<open>
  The callback given to \<open>setTimeout\<close>, which is the same in the basic and in the validating
  variant: \<open>setResults(simulatedResponse); setLoading(false);\<close>
\<close>

definition timeout_callback ::
  "audit_result \<Rightarrow> 'a basic_state_scheme \<Rightarrow> 'a basic_state_scheme" where
  "timeout_callback r s = setLoading False (setResults (Some r) s)"

subsection \<open>Validating variant (\<open>App.js\<close>, second document, lines 74-106)\<close>

text \<open>The object \<open>{ contactName, phone, email, business, location }\<close> given to the console.\<close>

definition submission :: "lead_state \<Rightarrow> js_object" where
  "submission s =
     [(''contactName'', contactName s), (''phone'', phone s), (''email'', email s),
      (''business'', business s), (''location'', location s)]"

definition runAudit_validating :: "lead_state \<Rightarrow> lead_state handled" where
  "runAudit_validating s =
     (if \<not> truthy (contactName s) \<or> \<not> truthy (phone s) \<or> \<not> truthy (email s)
           \<or> \<not> truthy (business s) \<or> \<not> truthy (location s)
      then (s, [Alert ''Please fill in all fields before running the audit.''], None)
      else (setLoading True s,
            [ConsoleLog ''Audit submitted:'' (submission s)],
            Some (Timeout simulatedResponse 1500)))"

subsection \<open>Webhook variant (\<open>part_000\<close>, lines 13-55)\<close>

definition webhook_url :: string where
  "webhook_url = ''https://hook.eu2.make.com/oro7fxpewgxa31b8ke1aofxol60129xo''"

text \<open>The object given to \<open>JSON.stringify\<close>: the contact name goes under the key \<open>name\<close>.\<close>

definition payload :: "lead_state \<Rightarrow> js_object" where
  "payload s =
     [(''name'', contactName s), (''phone'', phone s), (''email'', email s),
      (''business'', business s), (''location'', location s)]"

text \<open>The synchronous part: \<open>setLoading(true)\<close>, then the call of \<open>fetch\<close>, awaited.\<close>

definition runAudit_webhook :: "lead_state \<Rightarrow> lead_state handled" where
  "runAudit_webhook s =
     (setLoading True s,
      [Fetch webhook_url
         \<lparr> method' = ''POST'',
           headers = [(''Content-Type'', ''application/json'')],
           body = JSON_stringify (payload s) \<rparr>],
      Some (Await (submission s)))"

text \<open>
  The part after the \<open>await\<close>, run when the promise settles, on the state of that moment.
  Fulfilled: the rest of the \<open>try\<close> block (the log of the captured values,
  \<open>setResults(simulatedResponse)\<close>), then \<open>finally\<close>. Rejected: the \<open>catch\<close> block, then
  \<open>finally\<close>.
\<close>

fun runAudit_webhook_settled ::
  "js_object \<Rightarrow> outcome \<Rightarrow> lead_state \<Rightarrow> lead_state \<times> effect list" where
  "runAudit_webhook_settled captured (Fulfilled status text) s =
     (setLoading False (setResults (Some simulatedResponse) s),
      [ConsoleLog ''Audit submitted:'' captured])"
| "runAudit_webhook_settled captured (Rejected error) s =
     (setLoading False s,
      [ConsoleError ''Error submitting to webhook:'' error])"

section \<open>The rendered tree\<close>

text \<open>
  What \<open>App\<close> returns: a tree of elements with their props and children. A prop is a string,
  a boolean, the numeric \<open>key\<close> of a list item, or a handler: \<open>OnChange f\<close> stands for
  \<open>(e) => set<f>(e.target.value)\<close>, and \<open>OnClick\<close> for \<open>runAudit\<close>.
\<close>

datatype field = ContactName | Phone | Email | Business | Location

datatype jsx_prop = Str string | Flag bool | Key nat | OnChange field | OnClick

datatype node = Text string | Elem string "(string \<times> jsx_prop) list" "node list"

text \<open>Reading the tree: the text it shows, its elements in document order, a prop.\<close>

fun textContent :: "node \<Rightarrow> string" where
  "textContent (Text t) = t"
| "textContent (Elem tag props kids) = concat (map textContent kids)"

fun elements :: "node \<Rightarrow> node list" where
  "elements (Text t) = []"
| "elements (Elem tag props kids) = Elem tag props kids # concat (map elements kids)"

fun has_tag :: "string \<Rightarrow> node \<Rightarrow> bool" where
  "has_tag t (Text x) = False"
| "has_tag t (Elem tag props kids) = (tag = t)"

fun prop_of :: "string \<Rightarrow> node \<Rightarrow> jsx_prop option" where
  "prop_of k (Text x) = None"
| "prop_of k (Elem tag props kids) = map_of props k"

definition by_tag :: "string \<Rightarrow> node \<Rightarrow> node list" where
  "by_tag t n = filter (has_tag t) (elements n)"

definition by_class :: "string \<Rightarrow> node \<Rightarrow> node list" where
  "by_class c n = filter (\<lambda>e. prop_of ''className'' e = Some (Str c)) (elements n)"

text \<open>
  The value shown by the input that edits field \<open>f\<close> (the input whose \<open>onChange\<close> sets
  \<open>f\<close>), if the tree has such an input.
\<close>

definition shown :: "field \<Rightarrow> node \<Rightarrow> jsx_prop option" where
  "shown f n =
     (case find (\<lambda>e. prop_of ''onChange'' e = Some (OnChange f)) (by_tag ''input'' n) of
        None \<Rightarrow> None
      | Some e \<Rightarrow> prop_of ''value'' e)"

text \<open>A click reaches \<open>runAudit\<close> when the tree has a button that carries it and is not disabled.\<close>

definition clickable :: "node \<Rightarrow> bool" where
  "clickable n =
     list_ex (\<lambda>b. prop_of ''onClick'' b = Some OnClick \<and> prop_of ''disabled'' b = Some (Flag False))
       (by_tag ''button'' n)"

subsection \<open>Basic variant (\<open>App.js\<close>, first document, lines 28-58)\<close>

definition App_basic :: "basic_state \<Rightarrow> node" where
  "App_basic s =
     Elem ''div'' [(''className'', Str ''App'')]
       ([ Elem ''h1'' [] [Text ''AI Visibility Audit''],
          Elem ''input''
            [(''type'', Str ''text''), (''placeholder'', Str ''Business Name''),
             (''value'', Str (business s)), (''onChange'', OnChange Business)] [],
          Elem ''input''
            [(''type'', Str ''text''), (''placeholder'', Str ''Location (e.g. London)''),
             (''value'', Str (location s)), (''onChange'', OnChange Location)] [],
          Elem ''button'' [(''onClick'', OnClick), (''disabled'', Flag (loading s))]
            [Text (if loading s then ''Running Audit...'' else ''Run Audit'')] ]
        @ (case results s of
             None \<Rightarrow> []
           | Some r \<Rightarrow>
               [ Elem ''div'' [(''className'', Str ''results'')]
                   [ Elem ''p'' []
                       [Elem ''strong'' [] [Text ''Directories Found:''], Text '' '',
                        Text (join '', '' (directories r))],
                     Elem ''p'' []
                       [Elem ''strong'' [] [Text ''Missing:''], Text '' '',
                        Text (join '', '' (missing r))],
                     Elem ''p'' []
                       [Elem ''strong'' [] [Text ''AI Mentioned in Test Prompts:''], Text '' '',
                        Text (if aiMention r then ''Yes'' else ''No'')],
                     Elem ''ul'' []
                       (map (\<lambda>(i, rec). Elem ''li'' [(''key'', Key i)] [Text rec])
                          (enumerate 0 (recommendations r))) ] ]))"

subsection \<open>Validating and webhook variant\<close>

text \<open>
  The \<open>return\<close> of the validating variant (\<open>App.js\<close>, second document, lines 108-166) and
  that of the webhook variant (\<open>part_000\<close>, lines 57-115) are the same text, character for
  character; one definition stands for both. The placeholder of the business input holds
  U+2019 and U+00E9, written here as their UTF-8 bytes.
\<close>

definition App_lead :: "lead_state \<Rightarrow> node" where
  "App_lead s =
     Elem ''div'' [(''className'', Str ''App'')]
       ([ Elem ''h1'' [] [Text ''AI Visibility Audit''],
          Elem ''p'' []
            [Text ''Find out if your business shows up in AI tools like ChatGPT, Bing, and Google.''],
          Elem ''input''
            [(''type'', Str ''text''), (''placeholder'', Str ''Your Full Name''),
             (''value'', Str (contactName s)), (''onChange'', OnChange ContactName)] [],
          Elem ''input''
            [(''type'', Str ''tel''), (''placeholder'', Str ''Phone Number''),
             (''value'', Str (phone s)), (''onChange'', OnChange Phone)] [],
          Elem ''input''
            [(''type'', Str ''email''), (''placeholder'', Str ''Email Address''),
             (''value'', Str (email s)), (''onChange'', OnChange Email)] [],
          Elem ''input''
            [(''type'', Str ''text''),
             (''placeholder'',
                Str (''Business Name (e.g. Elena'' @ [CHR 0xE2, CHR 0x80, CHR 0x99] @ ''s Caf''
                     @ [CHR 0xC3, CHR 0xA9] @ '')'')),
             (''value'', Str (business s)), (''onChange'', OnChange Business)] [],
          Elem ''input''
            [(''type'', Str ''text''), (''placeholder'', Str ''Location (e.g. London, SW7)''),
             (''value'', Str (location s)), (''onChange'', OnChange Location)] [],
          Elem ''button'' [(''onClick'', OnClick), (''disabled'', Flag (loading s))]
            [Text (if loading s then ''Running Audit...'' else ''Run Free AI Audit'')] ]
        @ (case results s of
             None \<Rightarrow> []
           | Some r \<Rightarrow>
               [ Elem ''div'' [(''className'', Str ''results'')]
                   [ Elem ''h2'' [] [Text ''Audit Results''],
                     Elem ''p'' []
                       [Elem ''strong'' [] [Text ''Directories Found:''], Text '' '',
                        Text (join '', '' (directories r))],
                     Elem ''p'' []
                       [Elem ''strong'' [] [Text ''Missing Listings:''], Text '' '',
                        Text (join '', '' (missing r))],
                     Elem ''p'' []
                       [Elem ''strong'' [] [Text ''AI Mentions Detected:''], Text '' '',
                        Text (if aiMention r then ''Yes'' else ''No'')],
                     Elem ''ul'' []
                       (map (\<lambda>(i, rec). Elem ''li'' [(''key'', Key i)] [Text rec])
                          (enumerate 0 (recommendations r))) ] ]))"

section \<open>Field updates\<close>

text \<open>
  What the \<open>onChange\<close> handler of the input of field \<open>f\<close> does with the typed value. The basic
  variant has the inputs of \<open>Business\<close> and \<open>Location\<close> only; its last equation is never
  reached by an event, since an event needs an input to come from.
\<close>

fun onChange_basic :: "field \<Rightarrow> string \<Rightarrow> basic_state \<Rightarrow> basic_state" where
  "onChange_basic Business v s = setBusiness v s"
| "onChange_basic Location v s = setLocation v s"
| "onChange_basic f v s = s"

fun onChange_lead :: "field \<Rightarrow> string \<Rightarrow> lead_state \<Rightarrow> lead_state" where
  "onChange_lead ContactName v s = setContactName v s"
| "onChange_lead Phone v s = setPhone v s"
| "onChange_lead Email v s = setEmail v s"
| "onChange_lead Business v s = setBusiness v s"
| "onChange_lead Location v s = setLocation v s"

text \<open>The state attribute behind a field, and a sequence of field updates, applied in order.\<close>

fun value_of :: "field \<Rightarrow> lead_state \<Rightarrow> string" where
  "value_of ContactName s = contactName s"
| "value_of Phone s = phone s"
| "value_of Email s = email s"
| "value_of Business s = business s"
| "value_of Location s = location s"

definition update_fields :: "(field \<times> string) list \<Rightarrow> lead_state \<Rightarrow> lead_state" where
  "update_fields us s = foldl (\<lambda>s (f, v). onChange_lead f v s) s us"

section \<open>The event loop\<close>

text \<open>
  The page runs one handler at a time. Its configuration is the component's state, the
  suspensions outstanding (oldest first) and the effects so far. An event is a keystroke in
  the input of a field, a click on the button, the firing of the oldest timer, or the
  settlement of the \<open>i\<close>-th outstanding \<open>fetch\<close>. The browser delivers a keystroke only to
  an input that is in the tree, and a click only to a button that is not disabled.
\<close>

record 's config =
  app :: 's
  pending :: "suspension list"
  trace :: "effect list"

datatype event = Change field string | Click | TimerFires | FetchSettles nat outcome

definition commit :: "'s handled \<Rightarrow> 's config \<Rightarrow> 's config" where
  "commit h c =
     (case h of (s, es, p) \<Rightarrow>
        c\<lparr> app := s,
           pending := pending c @ (case p of None \<Rightarrow> [] | Some x \<Rightarrow> [x]),
           trace := trace c @ es \<rparr>)"

definition fire_timer ::
  "('a basic_state_scheme) config \<Rightarrow> ('a basic_state_scheme) config" where
  "fire_timer c =
     (case pending c of
        Timeout r d # ps \<Rightarrow> c\<lparr> app := timeout_callback r (app c), pending := ps \<rparr>
      | _ \<Rightarrow> c)"

definition settle_fetch :: "nat \<Rightarrow> outcome \<Rightarrow> lead_state config \<Rightarrow> lead_state config" where
  "settle_fetch i out c =
     (if i < length (pending c) then
        (case pending c ! i of
           Await captured \<Rightarrow>
             (case runAudit_webhook_settled captured out (app c) of (s, es) \<Rightarrow>
                c\<lparr> app := s,
                   pending := take i (pending c) @ drop (Suc i) (pending c),
                   trace := trace c @ es \<rparr>)
         | _ \<Rightarrow> c)
      else c)"

fun step_basic :: "event \<Rightarrow> basic_state config \<Rightarrow> basic_state config" where
  "step_basic (Change f v) c =
     (if shown f (App_basic (app c)) = None then c
      else c\<lparr> app := onChange_basic f v (app c) \<rparr>)"
| "step_basic Click c =
     (if clickable (App_basic (app c)) then commit (runAudit_basic (app c)) c else c)"
| "step_basic TimerFires c = fire_timer c"
| "step_basic (FetchSettles i out) c = c"

fun step_validating :: "event \<Rightarrow> lead_state config \<Rightarrow> lead_state config" where
  "step_validating (Change f v) c =
     (if shown f (App_lead (app c)) = None then c
      else c\<lparr> app := onChange_lead f v (app c) \<rparr>)"
| "step_validating Click c =
     (if clickable (App_lead (app c)) then commit (runAudit_validating (app c)) c else c)"
| "step_validating TimerFires c = fire_timer c"
| "step_validating (FetchSettles i out) c = c"

fun step_webhook :: "event \<Rightarrow> lead_state config \<Rightarrow> lead_state config" where
  "step_webhook (Change f v) c =
     (if shown f (App_lead (app c)) = None then c
      else c\<lparr> app := onChange_lead f v (app c) \<rparr>)"
| "step_webhook Click c =
     (if clickable (App_lead (app c)) then commit (runAudit_webhook (app c)) c else c)"
| "step_webhook TimerFires c = c"
| "step_webhook (FetchSettles i out) c = settle_fetch i out c"

text \<open>Running a sequence of events from a configuration, and the page as it is mounted.\<close>

definition run :: "(event \<Rightarrow> 'c \<Rightarrow> 'c) \<Rightarrow> event list \<Rightarrow> 'c \<Rightarrow> 'c" where
  "run step evs c = foldl (\<lambda>c e. step e c) c evs"

definition mounted :: "'s \<Rightarrow> 's config" where
  "mounted s = \<lparr> app = s, pending = [], trace = [] \<rparr>"

text \<open>
  One submit cycle on its own: the click in state \<open>s\<close>, then the completion of what it left
  pending, on the state the click left. A cycle that was aborted before suspending has no
  completion.
\<close>

definition cycle_basic :: "basic_state \<Rightarrow> basic_state" where
  "cycle_basic s =
     (case runAudit_basic s of
        (s', es, Some (Timeout r d)) \<Rightarrow> timeout_callback r s'
      | (s', es, p) \<Rightarrow> s')"

definition cycle_validating :: "lead_state \<Rightarrow> lead_state" where
  "cycle_validating s =
     (case runAudit_validating s of
        (s', es, Some (Timeout r d)) \<Rightarrow> timeout_callback r s'
      | (s', es, p) \<Rightarrow> s')"

definition cycle_webhook :: "outcome \<Rightarrow> lead_state \<Rightarrow> lead_state \<times> effect list" where
  "cycle_webhook out s =
     (case runAudit_webhook s of
        (s', es, Some (Await captured)) \<Rightarrow>
          (case runAudit_webhook_settled captured out s' of (s'', es') \<Rightarrow> (s'', es @ es'))
      | (s', es, p) \<Rightarrow> (s', es))"

section \<open>Properties of a configuration\<close>

text \<open>
  \<open>guarded\<close>: at most one suspension is outstanding, and while one is, \<open>loading\<close> is true.
  \<open>constant_only\<close>: the results held are null or the constant, and every timer outstanding
  carries the constant.
\<close>

definition guarded :: "('a basic_state_scheme) config \<Rightarrow> bool" where
  "guarded c = (length (pending c) \<le> 1 \<and> (pending c \<noteq> [] \<longrightarrow> loading (app c)))"

fun carries_constant :: "suspension \<Rightarrow> bool" where
  "carries_constant (Timeout r d) = (r = simulatedResponse)"
| "carries_constant (Await captured) = True"

definition constant_only :: "('a basic_state_scheme) config \<Rightarrow> bool" where
  "constant_only c =
     ((results (app c) = None \<or> results (app c) = Some simulatedResponse)
      \<and> list_all carries_constant (pending c))"

section \<open>Facts about the setters\<close>

lemmas setters = setBusiness_def setLocation_def setResults_def setLoading_def
  setContactName_def setPhone_def setEmail_def

section \<open>Reading the rendered tree\<close>

text \<open>
  The list items of the recommendations are elements without element children, all of tag
  \<open>li\<close> and without a class; their texts are the recommendations and their keys the
  positions.
\<close>

lemma elements_items:
  "concat (map (elements \<circ> (\<lambda>(i, rec). Elem ''li'' [(''key'', Key i)] [Text rec])) (enumerate n xs))
     = map (\<lambda>(i, rec). Elem ''li'' [(''key'', Key i)] [Text rec]) (enumerate n xs)"
  by (induction xs arbitrary: n) simp_all

lemma items_are_li:
  "filter (has_tag ''li'') (map (\<lambda>(i, rec). Elem ''li'' [(''key'', Key i)] [Text rec]) (enumerate n xs))
     = map (\<lambda>(i, rec). Elem ''li'' [(''key'', Key i)] [Text rec]) (enumerate n xs)"
  by (induction xs arbitrary: n) simp_all

lemma items_not_other:
  "t \<noteq> ''li'' \<Longrightarrow>
   filter (has_tag t) (map (\<lambda>(i, rec). Elem ''li'' [(''key'', Key i)] [Text rec]) (enumerate n xs)) = []"
  by (induction xs arbitrary: n) auto

lemma items_no_class:
  "filter (\<lambda>e. prop_of ''className'' e = Some (Str c))
     (map (\<lambda>(i, rec). Elem ''li'' [(''key'', Key i)] [Text rec]) (enumerate n xs)) = []"
  by (induction xs arbitrary: n) auto

lemma items_text:
  "map (textContent \<circ> (\<lambda>(i, rec). Elem ''li'' [(''key'', Key i)] [Text rec])) (enumerate n xs) = xs"
  by (induction xs arbitrary: n) simp_all

lemma items_keys:
  "map (prop_of ''key'' \<circ> (\<lambda>(i, rec). Elem ''li'' [(''key'', Key i)] [Text rec])) (enumerate n xs)
     = map (\<lambda>i. Some (Key i)) [n ..< n + length xs]"
  by (induction xs arbitrary: n) (simp_all add: upt_rec)

lemma panel_basic_none: "results s = None \<Longrightarrow> by_class ''results'' (App_basic s) = []"
  by (simp add: by_class_def App_basic_def)

lemma panel_lead_none: "results s = None \<Longrightarrow> by_class ''results'' (App_lead s) = []"
  by (simp add: by_class_def App_lead_def)


lemmas items = elements_items items_are_li items_not_other items_no_class items_text items_keys

lemma panel_basic_some:
  assumes "results s = Some r"
  shows "map (\<lambda>panel. map textContent (by_tag ''p'' panel)) (by_class ''results'' (App_basic s)) =
          [[''Directories Found: '' @ join '', '' (directories r),
            ''Missing: '' @ join '', '' (missing r),
            ''AI Mentioned in Test Prompts: '' @ (if aiMention r then ''Yes'' else ''No'')]]"
    and "map (\<lambda>panel. map textContent (by_tag ''li'' panel)) (by_class ''results'' (App_basic s)) =
          [recommendations r]"
    and "map (\<lambda>panel. map (prop_of ''key'') (by_tag ''li'' panel)) (by_class ''results'' (App_basic s)) =
          [map (\<lambda>i. Some (Key i)) [0 ..< length (recommendations r)]]"
  using assms by (simp_all add: by_class_def by_tag_def App_basic_def items)

lemma panel_lead_some:
  assumes "results s = Some r"
  shows "map (\<lambda>panel. map textContent (by_tag ''p'' panel)) (by_class ''results'' (App_lead s)) =
          [[''Directories Found: '' @ join '', '' (directories r),
            ''Missing Listings: '' @ join '', '' (missing r),
            ''AI Mentions Detected: '' @ (if aiMention r then ''Yes'' else ''No'')]]"
    and "map (\<lambda>panel. map textContent (by_tag ''li'' panel)) (by_class ''results'' (App_lead s)) =
          [recommendations r]"
    and "map (\<lambda>panel. map (prop_of ''key'') (by_tag ''li'' panel)) (by_class ''results'' (App_lead s)) =
          [map (\<lambda>i. Some (Key i)) [0 ..< length (recommendations r)]]"
  using assms by (simp_all add: by_class_def by_tag_def App_lead_def items)

text \<open>What each input shows, and when the button takes a click.\<close>

lemma shown_lead: "shown f (App_lead s) = Some (Str (value_of f s))"
  by (cases f) (simp_all add: shown_def by_tag_def App_lead_def items split: option.split)

lemma shown_basic:
  "shown f (App_basic s) =
     (if f = Business then Some (Str (business s))
      else if f = Location then Some (Str (location s)) else None)"
  by (cases f) (simp_all add: shown_def by_tag_def App_basic_def items split: option.split)

lemma clickable_basic: "clickable (App_basic s) = (\<not> loading s)"
  by (simp add: clickable_def by_tag_def App_basic_def items split: option.split)

lemma clickable_lead: "clickable (App_lead s) = (\<not> loading s)"
  by (simp add: clickable_def by_tag_def App_lead_def items split: option.split)

section \<open>The results panel\<close>

text \<open>
  Claim C4. In every rendering state: when \<open>results\<close> is null the tree has no results
  panel; when \<open>results\<close> holds a value \<open>r\<close> the tree has exactly one panel, whose three
  lines show the directories joined with a comma and a space, the missing listings joined the
  same way, and \<open>Yes\<close> or \<open>No\<close> for \<open>aiMention\<close>, and whose list has exactly one item for
  each recommendation, in the original order, keyed by position. This holds for the tree of
  the basic variant (\<open>b\<close>) and for the tree of the validating and webhook variants (\<open>s\<close>).
  Each equation below lists, panel by panel, what the panels of the tree hold: a list of one
  element says that there is one panel.
\<close>

theorem results_panel_rendering:
  "(results b = None \<longrightarrow> by_class ''results'' (App_basic b) = [])
   \<and> (results s = None \<longrightarrow> by_class ''results'' (App_lead s) = [])
   \<and> (results b = Some r \<longrightarrow>
        map (\<lambda>panel. map textContent (by_tag ''p'' panel)) (by_class ''results'' (App_basic b)) =
          [[''Directories Found: '' @ join '', '' (directories r),
            ''Missing: '' @ join '', '' (missing r),
            ''AI Mentioned in Test Prompts: '' @ (if aiMention r then ''Yes'' else ''No'')]]
        \<and> map (\<lambda>panel. map textContent (by_tag ''li'' panel)) (by_class ''results'' (App_basic b)) =
          [recommendations r]
        \<and> map (\<lambda>panel. map (prop_of ''key'') (by_tag ''li'' panel)) (by_class ''results'' (App_basic b)) =
          [map (\<lambda>i. Some (Key i)) [0 ..< length (recommendations r)]])
   \<and> (results s = Some r \<longrightarrow>
        map (\<lambda>panel. map textContent (by_tag ''p'' panel)) (by_class ''results'' (App_lead s)) =
          [[''Directories Found: '' @ join '', '' (directories r),
            ''Missing Listings: '' @ join '', '' (missing r),
            ''AI Mentions Detected: '' @ (if aiMention r then ''Yes'' else ''No'')]]
        \<and> map (\<lambda>panel. map textContent (by_tag ''li'' panel)) (by_class ''results'' (App_lead s)) =
          [recommendations r]
        \<and> map (\<lambda>panel. map (prop_of ''key'') (by_tag ''li'' panel)) (by_class ''results'' (App_lead s)) =
          [map (\<lambda>i. Some (Key i)) [0 ..< length (recommendations r)]])"
  using panel_basic_none [of b] panel_lead_none [of s]
    panel_basic_some [of b r] panel_lead_some [of s r]
  by simp

theorem results_panel_rendering_witness:
  "by_class ''results'' (App_basic initial_basic) = []
   \<and> by_class ''results'' (App_lead initial_lead) = []
   \<and> map (\<lambda>panel. map textContent (by_tag ''p'' panel))
        (by_class ''results'' (App_basic (initial_basic\<lparr>results := Some simulatedResponse\<rparr>))) =
       [[''Directories Found: Google Business, Yelp, Bing Places'',
         ''Missing: Yelp'',
         ''AI Mentioned in Test Prompts: No'']]
   \<and> map (\<lambda>panel. map textContent (by_tag ''li'' panel))
        (by_class ''results'' (App_basic (initial_basic\<lparr>results := Some simulatedResponse\<rparr>))) =
       [[''Create a Yelp profile with full business details.'',
         ''Add structured FAQ to your website (schema.org markup).'',
         ''Get mentioned on local blogs or Reddit threads.'']]
   \<and> map (\<lambda>panel. map textContent (by_tag ''p'' panel))
        (by_class ''results'' (App_lead (initial_lead\<lparr>results :=
           Some \<lparr>directories = [''Yell''], missing = [], aiMention = True, recommendations = []\<rparr>\<rparr>))) =
       [[''Directories Found: Yell'',
         ''Missing Listings: '',
         ''AI Mentions Detected: Yes'']]
   \<and> map (\<lambda>panel. map textContent (by_tag ''li'' panel))
        (by_class ''results'' (App_lead (initial_lead\<lparr>results :=
           Some \<lparr>directories = [''Yell''], missing = [], aiMention = True, recommendations = []\<rparr>\<rparr>))) =
       [[]]"
  using results_panel_rendering
          [where b = initial_basic and s = initial_lead and r = simulatedResponse]
        results_panel_rendering
          [where b = "initial_basic\<lparr>results := Some simulatedResponse\<rparr>"
             and s = "initial_lead\<lparr>results := Some simulatedResponse\<rparr>"
             and r = simulatedResponse]
        results_panel_rendering
          [where b = "initial_basic"
             and s = "initial_lead\<lparr>results :=
           Some \<lparr>directories = [''Yell''], missing = [], aiMention = True, recommendations = []\<rparr>\<rparr>"
             and r = "\<lparr>directories = [''Yell''], missing = [], aiMention = True, recommendations = []\<rparr>"]
  by (simp add: initial_basic_def initial_lead_def simulatedResponse_def)

section \<open>Field updates\<close>

lemma value_of_onChange:
  "value_of g (onChange_lead f v s) = (if g = f then v else value_of g s)"
  by (cases f; cases g) (simp_all add: setters)

lemma onChange_keeps:
  "results (onChange_lead f v s) = results s" "loading (onChange_lead f v s) = loading s"
  by (cases f; simp add: setters)+

lemma value_of_update_fields:
  "value_of f (update_fields us s) =
     (case map_of (rev us) f of None \<Rightarrow> value_of f s | Some v \<Rightarrow> v)"
proof (induction us rule: rev_induct)
  case Nil
  show ?case by (simp add: update_fields_def)
next
  case (snoc u us)
  obtain g v where u: "u = (g, v)" by (cases u)
  have "update_fields (us @ [u]) s = onChange_lead g v (update_fields us s)"
    by (simp add: update_fields_def u)
  with snoc show ?case by (simp add: u value_of_onChange)
qed

lemma update_fields_keeps:
  "results (update_fields us s) = results s \<and> loading (update_fields us s) = loading s"
  by (induction us rule: rev_induct) (simp_all add: update_fields_def onChange_keeps split: prod.split)

text \<open>
  Claim C6. For every sequence \<open>us\<close> of field updates on the five fields, applied to any
  state \<open>s\<close>: the value of each field \<open>f\<close> afterwards is the value of the last update of
  \<open>f\<close> in the sequence (the value it had, when the sequence has none), and the input of \<open>f\<close>
  shows it; \<open>results\<close> and \<open>loading\<close> are as before. A single update of \<open>f\<close> sets \<open>f\<close> and
  leaves every other field alone, and the event loop applies it in every configuration \<open>c\<close>,
  whatever is loading or pending.
\<close>

theorem field_updates_last_write_wins:
  "value_of f (update_fields us s) =
     (case map_of (rev us) f of None \<Rightarrow> value_of f s | Some v \<Rightarrow> v)
   \<and> shown f (App_lead (update_fields us s)) = Some (Str (value_of f (update_fields us s)))
   \<and> results (update_fields us s) = results s
   \<and> loading (update_fields us s) = loading s
   \<and> value_of f (onChange_lead f v s) = v
   \<and> (\<forall>g. g \<noteq> f \<longrightarrow> value_of g (onChange_lead f v s) = value_of g s)
   \<and> step_validating (Change f v) c = c\<lparr>app := onChange_lead f v (app c)\<rparr>
   \<and> step_webhook (Change f v) c = c\<lparr>app := onChange_lead f v (app c)\<rparr>"
  by (simp add: value_of_update_fields shown_lead update_fields_keeps value_of_onChange)

theorem field_updates_last_write_wins_witness:
  "value_of Phone (update_fields [(Phone, ''1''), (Email, ''a@b''), (Phone, ''12'')] initial_lead) = ''12''
   \<and> shown Phone (App_lead (update_fields [(Phone, ''1''), (Email, ''a@b''), (Phone, ''12'')] initial_lead))
       = Some (Str ''12'')
   \<and> value_of Business (update_fields [(Phone, ''1''), (Email, ''a@b''), (Phone, ''12'')] initial_lead) = []
   \<and> Email \<noteq> Phone
   \<and> value_of Email (onChange_lead Phone ''12'' (update_fields [(Phone, ''1''), (Email, ''a@b'')] initial_lead))
       = ''a@b''"
proof -
  let ?us = "[(Phone, ''1''), (Email, ''a@b''), (Phone, ''12'')]"
  let ?s = "update_fields [(Phone, ''1''), (Email, ''a@b'')] initial_lead"
  have distinct: "Email \<noteq> Phone" by simp
  have keep: "value_of Email (onChange_lead Phone ''12'' ?s) = value_of Email ?s"
    using field_updates_last_write_wins [where f = Phone and v = "''12''" and s = ?s] distinct
    by blast
  have before: "value_of Email ?s = ''a@b''"
    using field_updates_last_write_wins
            [where f = Email and us = "[(Phone, ''1''), (Email, ''a@b'')]" and s = initial_lead]
    by simp
  show ?thesis
    using field_updates_last_write_wins [where f = Phone and us = ?us and s = initial_lead]
          field_updates_last_write_wins [where f = Business and us = ?us and s = initial_lead]
          keep before
    by (simp add: initial_lead_def)
qed

section \<open>The presence check of the validating variant\<close>

lemma runAudit_validating_empty:
  assumes "contactName s = [] \<or> phone s = [] \<or> email s = [] \<or> business s = [] \<or> location s = []"
  shows "runAudit_validating s =
           (s, [Alert ''Please fill in all fields before running the audit.''], None)"
  using assms by (auto simp add: runAudit_validating_def truthy_def)

lemma runAudit_validating_filled:
  assumes "contactName s \<noteq> []" "phone s \<noteq> []" "email s \<noteq> []" "business s \<noteq> []"
    "location s \<noteq> []"
  shows "runAudit_validating s =
           (s\<lparr>loading := True\<rparr>,
            [ConsoleLog ''Audit submitted:'' (submission s)],
            Some (Timeout simulatedResponse 1500))"
  using assms by (simp add: runAudit_validating_def truthy_def setters)

text \<open>
  Claim C3. In the validating variant, in every state in which at least one of the five
  fields is empty, \<open>runAudit\<close> raises the alert and returns: the state it returns is the state
  it was given (so \<open>results\<close> is unchanged, null on a first attempt, and \<open>loading\<close> is as it
  was, false), it leaves no suspension, and its only effect is the alert: no log and no
  network call. The same holds for the click in the event loop: the configuration changes in
  its trace only, by that one alert (and by nothing when the button is disabled).
\<close>

theorem empty_field_aborts_submit:
  assumes "contactName s = [] \<or> phone s = [] \<or> email s = [] \<or> business s = [] \<or> location s = []"
  shows "runAudit_validating s =
           (s, [Alert ''Please fill in all fields before running the audit.''], None)
         \<and> cycle_validating s = s
         \<and> step_validating Click \<lparr>app = s, pending = ps, trace = tr\<rparr> =
             \<lparr>app = s, pending = ps,
               trace = tr @ (if loading s then []
                             else [Alert ''Please fill in all fields before running the audit.''])\<rparr>"
  using runAudit_validating_empty [OF assms]
  by (simp add: cycle_validating_def clickable_lead commit_def)

theorem empty_field_aborts_submit_witness:
  "email (initial_lead\<lparr>contactName := ''Ann'', phone := ''1'', business := ''Cafe'', location := ''London''\<rparr>) = []
   \<and> runAudit_validating
        (initial_lead\<lparr>contactName := ''Ann'', phone := ''1'', business := ''Cafe'', location := ''London''\<rparr>)
       = (initial_lead\<lparr>contactName := ''Ann'', phone := ''1'', business := ''Cafe'', location := ''London''\<rparr>,
          [Alert ''Please fill in all fields before running the audit.''], None)
   \<and> results (cycle_validating
        (initial_lead\<lparr>contactName := ''Ann'', phone := ''1'', business := ''Cafe'', location := ''London''\<rparr>))
       = None
   \<and> \<not> loading (cycle_validating
        (initial_lead\<lparr>contactName := ''Ann'', phone := ''1'', business := ''Cafe'', location := ''London''\<rparr>))"
proof -
  let ?s = "initial_lead\<lparr>contactName := ''Ann'', phone := ''1'', business := ''Cafe'', location := ''London''\<rparr>"
  have e: "email ?s = []" by (simp add: initial_lead_def)
  then have h: "contactName ?s = [] \<or> phone ?s = [] \<or> email ?s = [] \<or> business ?s = [] \<or> location ?s = []"
    by blast
  show ?thesis
    using empty_field_aborts_submit [OF h] e by (simp add: initial_lead_def)
qed

text \<open>
  Claim C9. In the validating variant the alert is raised if and only if some field is the
  empty string. A state in which every field is a non-empty string, also one of white space
  only, passes: \<open>runAudit\<close> sets \<open>loading\<close>, logs the submission and starts the timer.
\<close>

theorem alert_iff_empty_field:
  "((\<exists>msg. Alert msg \<in> set (fst (snd (runAudit_validating s))))
      \<longleftrightarrow> (contactName s = [] \<or> phone s = [] \<or> email s = [] \<or> business s = [] \<or> location s = []))
   \<and> (contactName s \<noteq> [] \<and> phone s \<noteq> [] \<and> email s \<noteq> [] \<and> business s \<noteq> [] \<and> location s \<noteq> []
        \<longrightarrow> runAudit_validating s =
              (s\<lparr>loading := True\<rparr>,
               [ConsoleLog ''Audit submitted:'' (submission s)],
               Some (Timeout simulatedResponse 1500)))"
proof (cases "contactName s = [] \<or> phone s = [] \<or> email s = [] \<or> business s = [] \<or> location s = []")
  case True
  with runAudit_validating_empty [OF True] show ?thesis by auto
next
  case False
  then have "runAudit_validating s =
           (s\<lparr>loading := True\<rparr>,
            [ConsoleLog ''Audit submitted:'' (submission s)],
            Some (Timeout simulatedResponse 1500))"
    by (intro runAudit_validating_filled) simp_all
  with False show ?thesis by simp
qed

theorem alert_iff_empty_field_witness:
  "contactName (initial_lead\<lparr>contactName := '' '', phone := '' '', email := '' '', business := '' '', location := ''  ''\<rparr>) \<noteq> []
   \<and> (\<forall>msg. Alert msg \<notin> set (fst (snd (runAudit_validating
        (initial_lead\<lparr>contactName := '' '', phone := '' '', email := '' '', business := '' '', location := ''  ''\<rparr>)))))
   \<and> snd (snd (runAudit_validating
        (initial_lead\<lparr>contactName := '' '', phone := '' '', email := '' '', business := '' '', location := ''  ''\<rparr>)))
       = Some (Timeout simulatedResponse 1500)
   \<and> Alert ''Please fill in all fields before running the audit.''
        \<in> set (fst (snd (runAudit_validating (initial_lead\<lparr>contactName := '' ''\<rparr>))))"
proof -
  let ?s = "initial_lead\<lparr>contactName := '' '', phone := '' '', email := '' '', business := '' '', location := ''  ''\<rparr>"
  have filled: "contactName ?s \<noteq> [] \<and> phone ?s \<noteq> [] \<and> email ?s \<noteq> [] \<and> business ?s \<noteq> [] \<and> location ?s \<noteq> []"
    by (simp add: initial_lead_def)
  have proceeds: "runAudit_validating ?s =
      (?s\<lparr>loading := True\<rparr>, [ConsoleLog ''Audit submitted:'' (submission ?s)],
       Some (Timeout simulatedResponse 1500))"
    using alert_iff_empty_field [of ?s] filled by blast
  have "phone (initial_lead\<lparr>contactName := '' ''\<rparr>) = []"
    by (simp add: initial_lead_def)
  then have "\<exists>msg. Alert msg \<in> set (fst (snd (runAudit_validating (initial_lead\<lparr>contactName := '' ''\<rparr>))))"
    using alert_iff_empty_field [of "initial_lead\<lparr>contactName := '' ''\<rparr>"] by blast
  then have alerted: "Alert ''Please fill in all fields before running the audit.''
        \<in> set (fst (snd (runAudit_validating (initial_lead\<lparr>contactName := '' ''\<rparr>))))"
    by (auto simp add: runAudit_validating_def split: if_splits)
  from filled proceeds alerted show ?thesis by simp
qed

section \<open>The constant result\<close>

text \<open>
  Claim C10. In the constant \<open>simulatedResponse\<close> that every variant produces, every element
  of \<open>missing\<close> is an element of \<open>directories\<close>.
\<close>

theorem missing_subset_directories:
  "\<forall>x \<in> set (missing simulatedResponse). x \<in> set (directories simulatedResponse)"
  by (simp add: simulatedResponse_def)

theorem missing_subset_directories_witness:
  "''Yelp'' \<in> set (missing simulatedResponse) \<and> ''Yelp'' \<in> set (directories simulatedResponse)"
proof -
  have m: "''Yelp'' \<in> set (missing simulatedResponse)"
    by (simp add: simulatedResponse_def)
  from missing_subset_directories m show ?thesis by blast
qed

section \<open>Submit cycles\<close>

lemma runAudit_basic_eq:
  "runAudit_basic s = (s\<lparr>loading := True\<rparr>, [], Some (Timeout simulatedResponse 1500))"
  by (simp add: runAudit_basic_def setters)

lemma runAudit_webhook_eq:
  "runAudit_webhook s =
     (s\<lparr>loading := True\<rparr>,
      [Fetch ''https://hook.eu2.make.com/oro7fxpewgxa31b8ke1aofxol60129xo''
         \<lparr> method' = ''POST'',
           headers = [(''Content-Type'', ''application/json'')],
           body = JSON_stringify
                    [(''name'', contactName s), (''phone'', phone s), (''email'', email s),
                     (''business'', business s), (''location'', location s)] \<rparr>],
      Some (Await (submission s)))"
  by (simp add: runAudit_webhook_def webhook_url_def payload_def setters)

lemma settled_no_fetch: "Fetch u r \<notin> set (snd (runAudit_webhook_settled captured out s))"
  by (cases out) simp_all

lemma settled_ignores_response:
  "runAudit_webhook_settled captured (Fulfilled status reply) s =
   runAudit_webhook_settled captured (Fulfilled status' reply') s"
  by simp

lemma settled_not_loading: "\<not> loading (fst (runAudit_webhook_settled captured out s))"
  by (cases out) (simp_all add: setters)

lemma callback_not_loading: "\<not> loading (timeout_callback r s)"
  by (simp add: timeout_callback_def setters)

lemma cycle_basic_eq: "cycle_basic s = s\<lparr>results := Some simulatedResponse, loading := False\<rparr>"
  by (simp add: cycle_basic_def runAudit_basic_def timeout_callback_def setters)

lemma cycle_validating_filled:
  assumes "contactName s \<noteq> []" "phone s \<noteq> []" "email s \<noteq> []" "business s \<noteq> []"
    "location s \<noteq> []"
  shows "cycle_validating s = s\<lparr>results := Some simulatedResponse, loading := False\<rparr>"
  using assms
  by (simp add: cycle_validating_def runAudit_validating_def truthy_def timeout_callback_def setters)

lemma cycle_webhook_fulfilled:
  "cycle_webhook (Fulfilled status text) s =
     (s\<lparr>results := Some simulatedResponse, loading := False\<rparr>,
      [Fetch webhook_url
         \<lparr> method' = ''POST'', headers = [(''Content-Type'', ''application/json'')],
           body = JSON_stringify (payload s) \<rparr>,
       ConsoleLog ''Audit submitted:'' (submission s)])"
  by (simp add: cycle_webhook_def runAudit_webhook_def setters)

lemma cycle_webhook_rejected:
  "cycle_webhook (Rejected error) s =
     (s\<lparr>loading := False\<rparr>,
      [Fetch webhook_url
         \<lparr> method' = ''POST'', headers = [(''Content-Type'', ''application/json'')],
           body = JSON_stringify (payload s) \<rparr>,
       ConsoleError ''Error submitting to webhook:'' error])"
  by (simp add: cycle_webhook_def runAudit_webhook_def setters)

lemma panel_basic_results:
  "results s = results s' \<Longrightarrow> by_class ''results'' (App_basic s) = by_class ''results'' (App_basic s')"
  by (simp add: by_class_def App_basic_def items split: option.split)

lemma panel_lead_results:
  "results s = results s' \<Longrightarrow> by_class ''results'' (App_lead s) = by_class ''results'' (App_lead s')"
  by (simp add: by_class_def App_lead_def items split: option.split)

lemma cycle_webhook_rejected_eq:
  "cycle_webhook (Rejected error) s =
     (s\<lparr>loading := False\<rparr>,
      [Fetch ''https://hook.eu2.make.com/oro7fxpewgxa31b8ke1aofxol60129xo''
         \<lparr> method' = ''POST'',
           headers = [(''Content-Type'', ''application/json'')],
           body = JSON_stringify
                    [(''name'', contactName s), (''phone'', phone s), (''email'', email s),
                     (''business'', business s), (''location'', location s)] \<rparr>,
       ConsoleError ''Error submitting to webhook:'' error])"
  by (simp add: cycle_webhook_rejected webhook_url_def payload_def)

section \<open>Invariants of the event loop\<close>

lemma run_invariant:
  assumes "P c" and "\<And>e c. P c \<Longrightarrow> P (step e c)"
  shows "P (run step evs c)"
  using assms(1) unfolding run_def
  by (induction evs arbitrary: c) (simp_all add: assms(2))

lemma onChange_basic_keeps:
  "loading (onChange_basic f v s) = loading s" "results (onChange_basic f v s) = results s"
  by (cases f; simp add: setters)+

lemma guarded_fire_timer: "guarded c \<Longrightarrow> guarded (fire_timer c)"
  by (auto simp add: guarded_def fire_timer_def split: list.splits suspension.splits)

lemma guarded_settle_fetch: "guarded c \<Longrightarrow> guarded (settle_fetch i out c)"
  by (cases out) (auto simp add: guarded_def settle_fetch_def split: list.splits suspension.splits)

lemma guarded_step_basic:
  assumes "guarded c" shows "guarded (step_basic e c)"
proof (cases e)
  case (Change f v)
  with assms show ?thesis by (simp add: guarded_def onChange_basic_keeps)
next
  case Click
  with assms show ?thesis
    by (auto simp add: guarded_def clickable_basic commit_def runAudit_basic_def setters)
next
  case TimerFires
  with assms show ?thesis by (simp add: guarded_fire_timer)
next
  case (FetchSettles i out)
  with assms show ?thesis by simp
qed

lemma guarded_step_validating:
  assumes "guarded c" shows "guarded (step_validating e c)"
proof (cases e)
  case (Change f v)
  with assms show ?thesis by (simp add: guarded_def onChange_keeps)
next
  case Click
  with assms show ?thesis
    by (auto simp add: guarded_def clickable_lead commit_def runAudit_validating_def setters)
next
  case TimerFires
  with assms show ?thesis by (simp add: guarded_fire_timer)
next
  case (FetchSettles i out)
  with assms show ?thesis by simp
qed

lemma guarded_step_webhook:
  assumes "guarded c" shows "guarded (step_webhook e c)"
proof (cases e)
  case (Change f v)
  with assms show ?thesis by (simp add: guarded_def onChange_keeps)
next
  case Click
  with assms show ?thesis
    by (auto simp add: guarded_def clickable_lead commit_def runAudit_webhook_def setters)
next
  case TimerFires
  with assms show ?thesis by simp
next
  case (FetchSettles i out)
  with assms show ?thesis by (simp add: guarded_settle_fetch)
qed

lemma guarded_mounted: "guarded (mounted s)"
  by (simp add: guarded_def mounted_def)

lemma constant_only_fire_timer: "constant_only c \<Longrightarrow> constant_only (fire_timer c)"
  by (auto simp add: constant_only_def fire_timer_def timeout_callback_def setters
        split: list.splits suspension.splits)

lemma list_all_take: "list_all P xs \<Longrightarrow> list_all P (take i xs)"
  by (auto simp add: list_all_iff dest: in_set_takeD)

lemma list_all_drop: "list_all P xs \<Longrightarrow> list_all P (drop i xs)"
  by (auto simp add: list_all_iff dest: in_set_dropD)

lemma constant_only_settle_fetch: "constant_only c \<Longrightarrow> constant_only (settle_fetch i out c)"
  by (cases out)
     (auto simp add: constant_only_def settle_fetch_def setters list_all_take list_all_drop
        split: list.splits suspension.splits)

lemma constant_only_step_basic:
  assumes "constant_only c" shows "constant_only (step_basic e c)"
proof (cases e)
  case (Change f v)
  with assms show ?thesis by (simp add: constant_only_def onChange_basic_keeps)
next
  case Click
  with assms show ?thesis
    by (auto simp add: constant_only_def commit_def runAudit_basic_def setters)
next
  case TimerFires
  with assms show ?thesis by (simp add: constant_only_fire_timer)
next
  case (FetchSettles i out)
  with assms show ?thesis by simp
qed

lemma constant_only_step_validating:
  assumes "constant_only c" shows "constant_only (step_validating e c)"
proof (cases e)
  case (Change f v)
  with assms show ?thesis by (simp add: constant_only_def onChange_keeps)
next
  case Click
  with assms show ?thesis
    by (auto simp add: constant_only_def commit_def runAudit_validating_def setters)
next
  case TimerFires
  with assms show ?thesis by (simp add: constant_only_fire_timer)
next
  case (FetchSettles i out)
  with assms show ?thesis by simp
qed

lemma constant_only_step_webhook:
  assumes "constant_only c" shows "constant_only (step_webhook e c)"
proof (cases e)
  case (Change f v)
  with assms show ?thesis by (simp add: constant_only_def onChange_keeps)
next
  case Click
  with assms show ?thesis
    by (auto simp add: constant_only_def commit_def runAudit_webhook_def setters)
next
  case TimerFires
  with assms show ?thesis by simp
next
  case (FetchSettles i out)
  with assms show ?thesis by (simp add: constant_only_settle_fetch)
qed

lemma constant_only_mounted: "results s = None \<Longrightarrow> constant_only (mounted s)"
  by (simp add: constant_only_def mounted_def)

text \<open>\<open>loading\<close> goes from true to false only in the step that completes a suspension.\<close>

lemma loading_drop_basic:
  assumes "loading (app c)" "\<not> loading (app (step_basic e c))"
  shows "e = TimerFires \<and> pending c \<noteq> []"
proof (cases e)
  case (Change f v)
  with assms show ?thesis by (simp add: onChange_basic_keeps split: if_splits)
next
  case Click
  with assms show ?thesis by (simp add: clickable_basic)
next
  case TimerFires
  with assms show ?thesis by (auto simp add: fire_timer_def)
next
  case (FetchSettles i out)
  with assms show ?thesis by simp
qed

lemma loading_drop_validating:
  assumes "loading (app c)" "\<not> loading (app (step_validating e c))"
  shows "e = TimerFires \<and> pending c \<noteq> []"
proof (cases e)
  case (Change f v)
  with assms show ?thesis by (simp add: onChange_keeps split: if_splits)
next
  case Click
  with assms show ?thesis by (simp add: clickable_lead)
next
  case TimerFires
  with assms show ?thesis by (auto simp add: fire_timer_def)
next
  case (FetchSettles i out)
  with assms show ?thesis by simp
qed

lemma loading_drop_webhook:
  assumes "loading (app c)" "\<not> loading (app (step_webhook e c))"
  shows "(\<exists>i out. e = FetchSettles i out) \<and> pending c \<noteq> []"
proof (cases e)
  case (Change f v)
  with assms show ?thesis by (simp add: onChange_keeps split: if_splits)
next
  case Click
  with assms show ?thesis by (simp add: clickable_lead)
next
  case TimerFires
  with assms show ?thesis by simp
next
  case (FetchSettles i out)
  with assms show ?thesis by (auto simp add: settle_fetch_def split: if_splits)
qed

lemmas run_simps = run_def mounted_def clickable_basic clickable_lead shown_basic shown_lead
  commit_def fire_timer_def settle_fetch_def timeout_callback_def

section \<open>The JSON text determines the values\<close>

text \<open>
  The escape of a character never starts with a double quote, and no escape is the start of
  another; so a quoted string can be read back from the front of any text that starts with
  it, and the JSON text of the request determines the five values in it.
\<close>

lemma hex_digit_inj:
  assumes "hex_digit a = hex_digit b"
  shows "a mod 16 = b mod 16"
proof -
  have d: "distinct ''0123456789abcdef''" by simp
  have l: "length ''0123456789abcdef'' = 16" by simp
  from assms show ?thesis
    unfolding hex_digit_def
    by (subst (asm) nth_eq_iff_index_eq [OF d]) simp_all
qed

lemma hex_pair_inj:
  assumes "a < 32" "b < 32" "hex_digit (a div 16) = hex_digit (b div 16)" "hex_digit a = hex_digit b"
  shows "a = b"
proof -
  from assms(4) have "a mod 16 = b mod 16" by (rule hex_digit_inj)
  moreover from assms(3) have "(a div 16) mod 16 = (b div 16) mod 16" by (rule hex_digit_inj)
  with assms(1,2) have "a div 16 = b div 16" by simp
  ultimately show ?thesis by (metis div_mult_mod_eq)
qed

lemma of_char_inj: "(of_char c :: nat) = of_char d \<Longrightarrow> c = d"
  by simp

lemma JSON_escape_prefix:
  assumes "JSON_escape c @ xs = JSON_escape d @ ys"
  shows "c = d \<and> xs = ys"
  using assms
  by (auto simp add: JSON_escape_def split: if_splits dest!: hex_pair_inj [rotated 2])


lemma JSON_escape_no_quote: "JSON_escape c @ xs \<noteq> CHR 0x22 # ys"
  by (auto simp add: JSON_escape_def split: if_splits)

lemma escaped_until_quote:
  "concat (map JSON_escape v) @ CHR 0x22 # xs = concat (map JSON_escape w) @ CHR 0x22 # ys
     \<Longrightarrow> v = w \<and> xs = ys"
proof (induction v arbitrary: w)
  case Nil
  then show ?case
    by (cases w) (simp_all add: JSON_escape_no_quote [symmetric])
next
  case (Cons c v)
  show ?case
  proof (cases w)
    case Nil
    with Cons.prems show ?thesis by (simp add: JSON_escape_no_quote)
  next
    case (Cons d w')
    with Cons.prems have
      "JSON_escape c @ (concat (map JSON_escape v) @ CHR 0x22 # xs) =
       JSON_escape d @ (concat (map JSON_escape w') @ CHR 0x22 # ys)"
      by simp
    then have "c = d" and
      "concat (map JSON_escape v) @ CHR 0x22 # xs = concat (map JSON_escape w') @ CHR 0x22 # ys"
      by (auto dest: JSON_escape_prefix)
    with Cons.IH [of w'] Cons show ?thesis by simp
  qed
qed

lemma JSON_quote_prefix:
  "(JSON_quote v @ xs = JSON_quote w @ ys) = (v = w \<and> xs = ys)"
  by (auto simp add: JSON_quote_def dest: escaped_until_quote)

lemma JSON_quote_inj: "(JSON_quote v = JSON_quote w) = (v = w)"
  using JSON_quote_prefix [of v "[]" w "[]"] by simp

lemma JSON_stringify_payload_inj:
  "(JSON_stringify (payload s) = JSON_stringify (payload s')) = (payload s = payload s')"
  by (simp add: JSON_stringify_def payload_def JSON_quote_prefix JSON_quote_inj)

section \<open>The outbound request\<close>

text \<open>
  Claim C5. In the webhook variant every call of \<open>runAudit\<close> issues, in its synchronous part,
  exactly one request: a \<open>POST\<close> to the fixed URL with the header
  \<open>Content-Type: application/json\<close> and, as body, the JSON text of the object that holds the
  five field values of the moment under the keys \<open>name\<close>, \<open>phone\<close>, \<open>email\<close>, \<open>business\<close>,
  \<open>location\<close>, in that order. Two calls issue the same request exactly when the five field
  values are the same. The part after the \<open>await\<close> issues no request, and what it does is
  the same for any two responses: the status and the body of the response are not looked at.
  In the event loop a click on the enabled button adds that one request to the trace.
\<close>

theorem webhook_post_request:
  "runAudit_webhook s =
     (s\<lparr>loading := True\<rparr>,
      [Fetch ''https://hook.eu2.make.com/oro7fxpewgxa31b8ke1aofxol60129xo''
         \<lparr> method' = ''POST'',
           headers = [(''Content-Type'', ''application/json'')],
           body = JSON_stringify
                    [(''name'', contactName s), (''phone'', phone s), (''email'', email s),
                     (''business'', business s), (''location'', location s)] \<rparr>],
      Some (Await (submission s)))
   \<and> ((fst (snd (runAudit_webhook s)) = fst (snd (runAudit_webhook s2)))
        = (contactName s = contactName s2 \<and> phone s = phone s2 \<and> email s = email s2
           \<and> business s = business s2 \<and> location s = location s2))
   \<and> (\<forall>u r. Fetch u r \<notin> set (snd (runAudit_webhook_settled captured out s')))
   \<and> runAudit_webhook_settled captured (Fulfilled status reply) s' =
       runAudit_webhook_settled captured (Fulfilled status' reply') s'
   \<and> step_webhook Click c =
       (if loading (app c) then c
        else c\<lparr> app := (app c)\<lparr>loading := True\<rparr>,
                pending := pending c @ [Await (submission (app c))],
                trace := trace c @
                  [Fetch ''https://hook.eu2.make.com/oro7fxpewgxa31b8ke1aofxol60129xo''
                     \<lparr> method' = ''POST'',
                       headers = [(''Content-Type'', ''application/json'')],
                       body = JSON_stringify
                                [(''name'', contactName (app c)), (''phone'', phone (app c)),
                                 (''email'', email (app c)), (''business'', business (app c)),
                                 (''location'', location (app c))] \<rparr>] \<rparr>)"
proof -
  have "(fst (snd (runAudit_webhook s)) = fst (snd (runAudit_webhook s2)))
        = (contactName s = contactName s2 \<and> phone s = phone s2 \<and> email s = email s2
           \<and> business s = business s2 \<and> location s = location s2)"
    by (simp add: runAudit_webhook_def JSON_stringify_payload_inj) (simp add: payload_def)
  then show ?thesis
    by (simp add: runAudit_webhook_eq settled_no_fetch clickable_lead commit_def)
qed

theorem webhook_post_request_witness:
  \<open>fst (snd (runAudit_webhook
      (initial_lead\<lparr>contactName := ''Ann "A" Lee'', phone := ''020'', email := ''ann@example.org'',
                     business := ''Cafe'', location := ''London''\<rparr>))) =
     [Fetch ''https://hook.eu2.make.com/oro7fxpewgxa31b8ke1aofxol60129xo''
        \<lparr> method' = ''POST'',
          headers = [(''Content-Type'', ''application/json'')],
          body = ''{"name":"Ann '' @ [CHR 0x5C] @ ''"A'' @ [CHR 0x5C] @ ''" Lee","phone":"020",''
                 @ ''"email":"ann@example.org","business":"Cafe","location":"London"}'' \<rparr>]\<close>
  using webhook_post_request
          [where s = \<open>initial_lead\<lparr>contactName := ''Ann "A" Lee'', phone := ''020'',
                         email := ''ann@example.org'', business := ''Cafe'', location := ''London''\<rparr>\<close>]
  by (simp add: initial_lead_def JSON_stringify_def JSON_quote_def JSON_escape_def)


section \<open>A rejected request\<close>

text \<open>
  Claim C1, as the code has it. In the webhook variant, when the \<open>POST\<close> is rejected, the
  submit cycle ends with \<open>loading = false\<close> and with \<open>results\<close> as they were before the
  submit (null on a first attempt): \<open>setResults\<close> stands in the \<open>try\<close> block after the
  \<open>await\<close> and is skipped. The state is otherwise untouched, and the only effects are the
  request and the error written to the console.
\<close>

theorem rejected_post_leaves_results:
  "cycle_webhook (Rejected error) s =
     (s\<lparr>loading := False\<rparr>,
      [Fetch ''https://hook.eu2.make.com/oro7fxpewgxa31b8ke1aofxol60129xo''
         \<lparr> method' = ''POST'',
           headers = [(''Content-Type'', ''application/json'')],
           body = JSON_stringify
                    [(''name'', contactName s), (''phone'', phone s), (''email'', email s),
                     (''business'', business s), (''location'', location s)] \<rparr>,
       ConsoleError ''Error submitting to webhook:'' error])
   \<and> results (fst (cycle_webhook (Rejected error) s)) = results s
   \<and> loading (fst (cycle_webhook (Rejected error) s)) = False
   \<and> runAudit_webhook_settled captured (Rejected error) s' =
       (s'\<lparr>loading := False\<rparr>, [ConsoleError ''Error submitting to webhook:'' error])"
  by (simp add: cycle_webhook_rejected_eq setters)

theorem rejected_post_leaves_results_witness:
  "results (fst (cycle_webhook (Rejected ''Failed to fetch'')
      (initial_lead\<lparr>contactName := ''Ann'', phone := ''020'', email := ''ann@example.org'',
                     business := ''Cafe'', location := ''London''\<rparr>))) = None
   \<and> loading (fst (cycle_webhook (Rejected ''Failed to fetch'')
      (initial_lead\<lparr>contactName := ''Ann'', phone := ''020'', email := ''ann@example.org'',
                     business := ''Cafe'', location := ''London''\<rparr>))) = False
   \<and> results (fst (cycle_webhook (Rejected ''Failed to fetch'')
      (initial_lead\<lparr>results := Some simulatedResponse\<rparr>))) = Some simulatedResponse"
  using rejected_post_leaves_results
          [where s = "initial_lead\<lparr>contactName := ''Ann'', phone := ''020'',
                        email := ''ann@example.org'', business := ''Cafe'', location := ''London''\<rparr>"
             and error = "''Failed to fetch''"]
        rejected_post_leaves_results
          [where s = "initial_lead\<lparr>results := Some simulatedResponse\<rparr>"
             and error = "''Failed to fetch''"]
  by (simp add: initial_lead_def)

text \<open>
  The claim as it is worded fails: after a rejected \<open>POST\<close> on a first submit the results
  are null, not the constant.
\<close>

theorem rejected_post_counterexample:
  "results (fst (cycle_webhook (Rejected ''Failed to fetch'')
      (initial_lead\<lparr>contactName := ''Ann'', phone := ''020'', email := ''ann@example.org'',
                     business := ''Cafe'', location := ''London''\<rparr>))) = None
   \<and> results (fst (cycle_webhook (Rejected ''Failed to fetch'')
      (initial_lead\<lparr>contactName := ''Ann'', phone := ''020'', email := ''ann@example.org'',
                     business := ''Cafe'', location := ''London''\<rparr>))) \<noteq> Some simulatedResponse"
  by (simp add: cycle_webhook_rejected initial_lead_def)

section \<open>A submit with all fields populated\<close>

text \<open>
  Claim C2, as the code has it. For every submit with all five fields populated, \<open>loading\<close>
  is true when the synchronous part of \<open>runAudit\<close> returns, in the validating and in the
  webhook variant. \<open>loading\<close> goes back to false only in the step that completes the
  suspension (the timer firing, the \<open>fetch\<close> settling). At that point \<open>results\<close> is exactly
  the constant when the wait was the timer of the validating variant or a fulfilled \<open>POST\<close>
  of the webhook variant; after a rejected \<open>POST\<close> the state is as before the submit, with
  \<open>loading = false\<close>. The same holds when the completion runs on a later state \<open>s'\<close>, after
  keystrokes made during the wait.
\<close>

theorem filled_submit_loading_then_results:
  assumes "contactName s \<noteq> []" "phone s \<noteq> []" "email s \<noteq> []" "business s \<noteq> []"
    "location s \<noteq> []"
  shows "loading (fst (runAudit_validating s))
     \<and> loading (fst (runAudit_webhook s))
     \<and> cycle_validating s =
         s\<lparr>results := Some
              \<lparr> directories = [''Google Business'', ''Yelp'', ''Bing Places''],
                missing = [''Yelp''],
                aiMention = False,
                recommendations =
                  [''Create a Yelp profile with full business details.'',
                   ''Add structured FAQ to your website (schema.org markup).'',
                   ''Get mentioned on local blogs or Reddit threads.''] \<rparr>,
            loading := False\<rparr>
     \<and> fst (cycle_webhook (Fulfilled status reply) s) =
         s\<lparr>results := Some
              \<lparr> directories = [''Google Business'', ''Yelp'', ''Bing Places''],
                missing = [''Yelp''],
                aiMention = False,
                recommendations =
                  [''Create a Yelp profile with full business details.'',
                   ''Add structured FAQ to your website (schema.org markup).'',
                   ''Get mentioned on local blogs or Reddit threads.''] \<rparr>,
            loading := False\<rparr>
     \<and> fst (cycle_webhook (Rejected error) s) = s\<lparr>loading := False\<rparr>
     \<and> timeout_callback simulatedResponse s' =
         s'\<lparr>results := Some
              \<lparr> directories = [''Google Business'', ''Yelp'', ''Bing Places''],
                missing = [''Yelp''],
                aiMention = False,
                recommendations =
                  [''Create a Yelp profile with full business details.'',
                   ''Add structured FAQ to your website (schema.org markup).'',
                   ''Get mentioned on local blogs or Reddit threads.''] \<rparr>,
            loading := False\<rparr>
     \<and> fst (runAudit_webhook_settled captured (Fulfilled status reply) s') =
         s'\<lparr>results := Some
              \<lparr> directories = [''Google Business'', ''Yelp'', ''Bing Places''],
                missing = [''Yelp''],
                aiMention = False,
                recommendations =
                  [''Create a Yelp profile with full business details.'',
                   ''Add structured FAQ to your website (schema.org markup).'',
                   ''Get mentioned on local blogs or Reddit threads.''] \<rparr>,
            loading := False\<rparr>
     \<and> fst (runAudit_webhook_settled captured (Rejected error) s') = s'\<lparr>loading := False\<rparr>
     \<and> (loading (app c) \<and> \<not> loading (app (step_validating e c))
          \<longrightarrow> e = TimerFires \<and> pending c \<noteq> [])
     \<and> (loading (app c) \<and> \<not> loading (app (step_webhook e c))
          \<longrightarrow> (\<exists>i out. e = FetchSettles i out) \<and> pending c \<noteq> [])"
proof -
  have "loading (fst (runAudit_validating s))"
    using assms by (simp add: runAudit_validating_filled)
  moreover have "loading (fst (runAudit_webhook s))"
    by (simp add: runAudit_webhook_eq)
  moreover note cycle_validating_filled [OF assms, unfolded simulatedResponse_def]
    cycle_webhook_fulfilled [of status reply s, unfolded simulatedResponse_def]
    cycle_webhook_rejected [of error s]
    loading_drop_validating [of c e] loading_drop_webhook [of c e]
  ultimately show ?thesis by (simp add: timeout_callback_def setters simulatedResponse_def)
qed

theorem filled_submit_loading_then_results_witness:
  "contactName (initial_lead\<lparr>contactName := ''Bo'', phone := ''1'', email := ''b@x.io'',
                     business := ''Bar'', location := ''Leeds''\<rparr>) \<noteq> []
   \<and> loading (fst (runAudit_validating
        (initial_lead\<lparr>contactName := ''Bo'', phone := ''1'', email := ''b@x.io'',
                     business := ''Bar'', location := ''Leeds''\<rparr>)))
   \<and> results (cycle_validating
        (initial_lead\<lparr>contactName := ''Bo'', phone := ''1'', email := ''b@x.io'',
                     business := ''Bar'', location := ''Leeds''\<rparr>)) = Some simulatedResponse
   \<and> loading (cycle_validating
        (initial_lead\<lparr>contactName := ''Bo'', phone := ''1'', email := ''b@x.io'',
                     business := ''Bar'', location := ''Leeds''\<rparr>)) = False
   \<and> results (fst (cycle_webhook (Fulfilled 500 ''Internal Server Error'')
        (initial_lead\<lparr>contactName := ''Bo'', phone := ''1'', email := ''b@x.io'',
                     business := ''Bar'', location := ''Leeds''\<rparr>))) = Some simulatedResponse
   \<and> loading (app (run step_validating
         [Change ContactName ''Bo'', Change Phone ''1'', Change Email ''b@x.io'',
          Change Business ''Bar'', Change Location ''Leeds'', Click] (mounted initial_lead)))
   \<and> \<not> loading (app (step_validating TimerFires (run step_validating
         [Change ContactName ''Bo'', Change Phone ''1'', Change Email ''b@x.io'',
          Change Business ''Bar'', Change Location ''Leeds'', Click] (mounted initial_lead))))
   \<and> pending (run step_validating
         [Change ContactName ''Bo'', Change Phone ''1'', Change Email ''b@x.io'',
          Change Business ''Bar'', Change Location ''Leeds'', Click] (mounted initial_lead)) \<noteq> []
   \<and> loading (app (run step_webhook
         [Change ContactName ''Bo'', Change Phone ''1'', Change Email ''b@x.io'',
          Change Business ''Bar'', Change Location ''Leeds'', Click] (mounted initial_lead)))
   \<and> \<not> loading (app (step_webhook (FetchSettles 0 (Fulfilled 500 ''Internal Server Error''))
        (run step_webhook
         [Change ContactName ''Bo'', Change Phone ''1'', Change Email ''b@x.io'',
          Change Business ''Bar'', Change Location ''Leeds'', Click] (mounted initial_lead))))
   \<and> pending (run step_webhook
         [Change ContactName ''Bo'', Change Phone ''1'', Change Email ''b@x.io'',
          Change Business ''Bar'', Change Location ''Leeds'', Click] (mounted initial_lead)) \<noteq> []"
proof -
  let ?s = "initial_lead\<lparr>contactName := ''Bo'', phone := ''1'', email := ''b@x.io'',
                     business := ''Bar'', location := ''Leeds''\<rparr>"
  let ?evs = "[Change ContactName ''Bo'', Change Phone ''1'', Change Email ''b@x.io'',
          Change Business ''Bar'', Change Location ''Leeds'', Click]"
  let ?cv = "run step_validating ?evs (mounted initial_lead)"
  let ?cw = "run step_webhook ?evs (mounted initial_lead)"
  have f: "contactName ?s \<noteq> []" "phone ?s \<noteq> []" "email ?s \<noteq> []" "business ?s \<noteq> []"
    "location ?s \<noteq> []"
    by (simp_all add: initial_lead_def)
  have lv: "loading (app ?cv)"
    by (simp add: run_simps initial_lead_def runAudit_validating_def truthy_def setters)
  have dv: "\<not> loading (app (step_validating TimerFires ?cv))"
    by (simp add: run_simps initial_lead_def runAudit_validating_def truthy_def setters)
  have lw: "loading (app ?cw)"
    by (simp add: run_simps initial_lead_def runAudit_webhook_def setters)
  have dw: "\<not> loading (app (step_webhook (FetchSettles 0 (Fulfilled 500 ''Internal Server Error'')) ?cw))"
    by (simp add: run_simps initial_lead_def runAudit_webhook_def setters)
  have pv: "pending ?cv \<noteq> []"
    using filled_submit_loading_then_results [OF f, where c = ?cv and e = TimerFires] lv dv
    by blast
  have pw: "pending ?cw \<noteq> []"
    using filled_submit_loading_then_results
            [OF f, where c = ?cw and e = "FetchSettles 0 (Fulfilled 500 ''Internal Server Error'')"]
          lw dw
    by blast
  have main: "loading (fst (runAudit_validating ?s))
      \<and> results (cycle_validating ?s) = Some simulatedResponse
      \<and> loading (cycle_validating ?s) = False
      \<and> results (fst (cycle_webhook (Fulfilled 500 ''Internal Server Error'') ?s))
          = Some simulatedResponse"
    using filled_submit_loading_then_results
            [OF f, where status = 500 and reply = "''Internal Server Error''"]
    by (simp add: simulatedResponse_def)
  from f(1) main lv dv pv lw dw pw show ?thesis by simp
qed

text \<open>
  The claim as it is worded fails in the webhook variant: with all five fields populated and
  the \<open>POST\<close> rejected, \<open>loading\<close> goes to true and back to false, and \<open>results\<close> is not
  the constant.
\<close>

theorem filled_submit_counterexample:
  "contactName (initial_lead\<lparr>contactName := ''Bo'', phone := ''1'', email := ''b@x.io'',
                     business := ''Bar'', location := ''Leeds''\<rparr>) \<noteq> []
   \<and> phone (initial_lead\<lparr>contactName := ''Bo'', phone := ''1'', email := ''b@x.io'',
                     business := ''Bar'', location := ''Leeds''\<rparr>) \<noteq> []
   \<and> email (initial_lead\<lparr>contactName := ''Bo'', phone := ''1'', email := ''b@x.io'',
                     business := ''Bar'', location := ''Leeds''\<rparr>) \<noteq> []
   \<and> business (initial_lead\<lparr>contactName := ''Bo'', phone := ''1'', email := ''b@x.io'',
                     business := ''Bar'', location := ''Leeds''\<rparr>) \<noteq> []
   \<and> location (initial_lead\<lparr>contactName := ''Bo'', phone := ''1'', email := ''b@x.io'',
                     business := ''Bar'', location := ''Leeds''\<rparr>) \<noteq> []
   \<and> loading (fst (runAudit_webhook (initial_lead\<lparr>contactName := ''Bo'', phone := ''1'',
                     email := ''b@x.io'', business := ''Bar'', location := ''Leeds''\<rparr>)))
   \<and> loading (fst (cycle_webhook (Rejected ''net::ERR_CONNECTION_RESET'')
        (initial_lead\<lparr>contactName := ''Bo'', phone := ''1'', email := ''b@x.io'',
                     business := ''Bar'', location := ''Leeds''\<rparr>))) = False
   \<and> results (fst (cycle_webhook (Rejected ''net::ERR_CONNECTION_RESET'')
        (initial_lead\<lparr>contactName := ''Bo'', phone := ''1'', email := ''b@x.io'',
                     business := ''Bar'', location := ''Leeds''\<rparr>))) \<noteq> Some simulatedResponse"
  by (simp add: cycle_webhook_rejected runAudit_webhook_eq initial_lead_def)

section \<open>One suspension per submit\<close>

text \<open>
  Claim C7. Every call of \<open>runAudit\<close> that passes validation (every call, in the basic and the
  webhook variant) sets \<open>loading\<close> to true and leaves exactly one suspension: the 1500ms
  timer, or the awaited \<open>fetch\<close>. Completing it sets \<open>loading\<close> to false, for the timer and
  for a \<open>fetch\<close> fulfilled or rejected alike. In every configuration that the page reaches
  from its mount by any sequence of events, at most one suspension is outstanding and
  \<open>loading\<close> is true while one is (\<open>guarded\<close>). In any configuration, a step that takes
  \<open>loading\<close> from true to false is the completion of an outstanding suspension.
\<close>

theorem one_suspension_per_submit:
  "runAudit_basic b = (b\<lparr>loading := True\<rparr>, [], Some (Timeout simulatedResponse 1500))
   \<and> (contactName s \<noteq> [] \<and> phone s \<noteq> [] \<and> email s \<noteq> [] \<and> business s \<noteq> [] \<and> location s \<noteq> []
        \<longrightarrow> runAudit_validating s =
              (s\<lparr>loading := True\<rparr>,
               [ConsoleLog ''Audit submitted:'' (submission s)],
               Some (Timeout simulatedResponse 1500)))
   \<and> fst (runAudit_webhook s) = s\<lparr>loading := True\<rparr>
   \<and> snd (snd (runAudit_webhook s)) = Some (Await (submission s))
   \<and> \<not> loading (timeout_callback r x)
   \<and> \<not> loading (fst (runAudit_webhook_settled captured (Fulfilled status reply) s'))
   \<and> \<not> loading (fst (runAudit_webhook_settled captured (Rejected error) s'))
   \<and> guarded (run step_basic evs (mounted initial_basic))
   \<and> guarded (run step_validating evs (mounted initial_lead))
   \<and> guarded (run step_webhook evs (mounted initial_lead))
   \<and> (loading (app cb) \<and> \<not> loading (app (step_basic e cb))
        \<longrightarrow> e = TimerFires \<and> pending cb \<noteq> [])
   \<and> (loading (app c) \<and> \<not> loading (app (step_validating e c))
        \<longrightarrow> e = TimerFires \<and> pending c \<noteq> [])
   \<and> (loading (app c) \<and> \<not> loading (app (step_webhook e c))
        \<longrightarrow> (\<exists>i out. e = FetchSettles i out) \<and> pending c \<noteq> [])"
proof -
  have "guarded (run step_basic evs (mounted initial_basic))"
    by (rule run_invariant [where P = guarded, OF guarded_mounted guarded_step_basic])
  moreover have "guarded (run step_validating evs (mounted initial_lead))"
    by (rule run_invariant [where P = guarded, OF guarded_mounted guarded_step_validating])
  moreover have "guarded (run step_webhook evs (mounted initial_lead))"
    by (rule run_invariant [where P = guarded, OF guarded_mounted guarded_step_webhook])
  moreover note loading_drop_basic [of cb e] loading_drop_validating [of c e]
    loading_drop_webhook [of c e] runAudit_validating_filled [of s]
  ultimately show ?thesis
    by (simp add: runAudit_basic_eq runAudit_webhook_eq callback_not_loading setters)
qed


theorem one_suspension_per_submit_witness:
  "pending (run step_basic [Click, Click] (mounted initial_basic)) \<noteq> []
   \<and> length (pending (run step_basic [Click, Click] (mounted initial_basic))) \<le> 1
   \<and> loading (app (run step_basic [Click, Click] (mounted initial_basic)))
   \<and> pending (run step_validating
         [Change ContactName ''Ann'', Change Phone ''020'', Change Email ''ann@example.org'',
          Change Business ''Cafe'', Change Location ''London'', Click, Change Phone ''021'']
         (mounted initial_lead)) \<noteq> []
   \<and> loading (app (run step_validating
         [Change ContactName ''Ann'', Change Phone ''020'', Change Email ''ann@example.org'',
          Change Business ''Cafe'', Change Location ''London'', Click, Change Phone ''021'']
         (mounted initial_lead)))
   \<and> pending (run step_webhook [Change ContactName ''Ann'', Click, Change Phone ''020'', Click]
         (mounted initial_lead)) \<noteq> []
   \<and> length (pending (run step_webhook [Change ContactName ''Ann'', Click, Change Phone ''020'', Click]
         (mounted initial_lead))) \<le> 1
   \<and> loading (app (run step_webhook [Change ContactName ''Ann'', Click, Change Phone ''020'', Click]
         (mounted initial_lead)))
   \<and> contactName (initial_lead\<lparr>contactName := ''Ann'', phone := ''020'', email := ''ann@example.org'',
                     business := ''Cafe'', location := ''London''\<rparr>) \<noteq> []
   \<and> snd (snd (runAudit_validating
        (initial_lead\<lparr>contactName := ''Ann'', phone := ''020'', email := ''ann@example.org'',
                     business := ''Cafe'', location := ''London''\<rparr>)))
       = Some (Timeout simulatedResponse 1500)
   \<and> \<not> loading (app (step_basic TimerFires (run step_basic [Click, Click] (mounted initial_basic))))
   \<and> \<not> loading (app (step_validating TimerFires (run step_validating
         [Change ContactName ''Ann'', Change Phone ''020'', Change Email ''ann@example.org'',
          Change Business ''Cafe'', Change Location ''London'', Click, Change Phone ''021'']
         (mounted initial_lead))))
   \<and> \<not> loading (app (step_webhook (FetchSettles 0 (Rejected ''Failed to fetch''))
         (run step_webhook [Change ContactName ''Ann'', Click, Change Phone ''020'', Click]
            (mounted initial_lead))))"
proof -
  let ?cb = "run step_basic [Click, Click] (mounted initial_basic)"
  let ?cv = "run step_validating
         [Change ContactName ''Ann'', Change Phone ''020'', Change Email ''ann@example.org'',
          Change Business ''Cafe'', Change Location ''London'', Click, Change Phone ''021'']
         (mounted initial_lead)"
  let ?cw = "run step_webhook [Change ContactName ''Ann'', Click, Change Phone ''020'', Click]
         (mounted initial_lead)"
  let ?s = "initial_lead\<lparr>contactName := ''Ann'', phone := ''020'', email := ''ann@example.org'',
                     business := ''Cafe'', location := ''London''\<rparr>"
  have gb: "guarded ?cb"
    using one_suspension_per_submit [where evs = "[Click, Click]"] by blast
  have gv: "guarded ?cv"
    using one_suspension_per_submit
      [where evs = "[Change ContactName ''Ann'', Change Phone ''020'',
          Change Email ''ann@example.org'', Change Business ''Cafe'', Change Location ''London'',
          Click, Change Phone ''021'']"]
    by blast
  have gw: "guarded ?cw"
    using one_suspension_per_submit
      [where evs = "[Change ContactName ''Ann'', Click, Change Phone ''020'', Click]"]
    by blast
  have f: "contactName ?s \<noteq> [] \<and> phone ?s \<noteq> [] \<and> email ?s \<noteq> [] \<and> business ?s \<noteq> []
           \<and> location ?s \<noteq> []"
    by (simp add: initial_lead_def)
  have v: "runAudit_validating ?s =
              (?s\<lparr>loading := True\<rparr>,
               [ConsoleLog ''Audit submitted:'' (submission ?s)],
               Some (Timeout simulatedResponse 1500))"
    using one_suspension_per_submit [where s = ?s] f by blast
  have db: "\<not> loading (app (step_basic TimerFires ?cb))"
    by (simp add: run_simps initial_basic_def runAudit_basic_def setters)
  have dv: "\<not> loading (app (step_validating TimerFires ?cv))"
    by (simp add: run_simps initial_lead_def runAudit_validating_def truthy_def setters)
  have dw: "\<not> loading (app (step_webhook (FetchSettles 0 (Rejected ''Failed to fetch'')) ?cw))"
    by (simp add: run_simps initial_lead_def runAudit_webhook_def setters)
  have lb: "loading (app ?cb)"
    by (simp add: run_simps initial_basic_def runAudit_basic_def setters)
  have lv: "loading (app ?cv)"
    by (simp add: run_simps initial_lead_def runAudit_validating_def truthy_def setters)
  have lw: "loading (app ?cw)"
    by (simp add: run_simps initial_lead_def runAudit_webhook_def setters)
  have pb: "pending ?cb \<noteq> []"
    using one_suspension_per_submit [where cb = ?cb and e = TimerFires] lb db by blast
  have pv: "pending ?cv \<noteq> []"
    using one_suspension_per_submit
      [where c = ?cv and e = TimerFires] lv dv
    by blast
  have pw: "pending ?cw \<noteq> []"
    using one_suspension_per_submit
      [where c = ?cw and e = "FetchSettles 0 (Rejected ''Failed to fetch'')"] lw dw
    by blast
  from gb gv gw f v db dv dw lb lv lw pb pv pw show ?thesis by (simp add: guarded_def)
qed

section \<open>The result does not depend on the input\<close>

text \<open>
  Claim C8, as the code has it. A submit cycle completed by the timer or by a fulfilled
  \<open>POST\<close> ends with the constant as results, whatever the submitted field values: in the
  basic variant from any state, in the validating variant from any state that passes
  validation, in the webhook variant from any state and with any response. A cycle whose
  \<open>POST\<close> is rejected ends with the results that were held before the submit, again
  whatever the submitted field values. So two submit cycles that differ in the submitted
  field values end with the same results and show the same results panel: in the basic
  variant for any two states; in the validating variant for any two states that pass
  validation; in the webhook variant for any two states and any two responses when the
  \<open>POST\<close> is fulfilled, and, for one and the same settlement, for any two states that held
  the same results before. In every configuration that the page reaches from its mount by
  any sequence of events, the results are null or the constant (\<open>constant_only\<close>).
\<close>

theorem results_independent_of_fields:
  "results (cycle_basic b1) = Some simulatedResponse
   \<and> (contactName s1 \<noteq> [] \<and> phone s1 \<noteq> [] \<and> email s1 \<noteq> [] \<and> business s1 \<noteq> [] \<and> location s1 \<noteq> []
        \<longrightarrow> results (cycle_validating s1) = Some simulatedResponse)
   \<and> results (fst (cycle_webhook (Fulfilled status1 reply1) s1)) = Some simulatedResponse
   \<and> results (fst (cycle_webhook (Rejected error) s1)) = results s1
   \<and> results (cycle_basic b1) = results (cycle_basic b2)
   \<and> by_class ''results'' (App_basic (cycle_basic b1)) = by_class ''results'' (App_basic (cycle_basic b2))
   \<and> (contactName s1 \<noteq> [] \<and> phone s1 \<noteq> [] \<and> email s1 \<noteq> [] \<and> business s1 \<noteq> [] \<and> location s1 \<noteq> []
      \<and> contactName s2 \<noteq> [] \<and> phone s2 \<noteq> [] \<and> email s2 \<noteq> [] \<and> business s2 \<noteq> [] \<and> location s2 \<noteq> []
        \<longrightarrow> results (cycle_validating s1) = results (cycle_validating s2)
          \<and> by_class ''results'' (App_lead (cycle_validating s1))
              = by_class ''results'' (App_lead (cycle_validating s2)))
   \<and> results (fst (cycle_webhook (Fulfilled status1 reply1) s1))
       = results (fst (cycle_webhook (Fulfilled status2 reply2) s2))
   \<and> by_class ''results'' (App_lead (fst (cycle_webhook (Fulfilled status1 reply1) s1)))
       = by_class ''results'' (App_lead (fst (cycle_webhook (Fulfilled status2 reply2) s2)))
   \<and> (results s1 = results s2
        \<longrightarrow> results (fst (cycle_webhook out s1)) = results (fst (cycle_webhook out s2))
          \<and> by_class ''results'' (App_lead (fst (cycle_webhook out s1)))
              = by_class ''results'' (App_lead (fst (cycle_webhook out s2))))
   \<and> constant_only (run step_basic evs (mounted initial_basic))
   \<and> constant_only (run step_validating evs (mounted initial_lead))
   \<and> constant_only (run step_webhook evs (mounted initial_lead))"
proof -
  have basic: "results (cycle_basic b1) = results (cycle_basic b2)"
    by (simp add: cycle_basic_eq)
  have validating: "results (cycle_validating s1) = results (cycle_validating s2)"
    if "contactName s1 \<noteq> [] \<and> phone s1 \<noteq> [] \<and> email s1 \<noteq> [] \<and> business s1 \<noteq> [] \<and> location s1 \<noteq> []
      \<and> contactName s2 \<noteq> [] \<and> phone s2 \<noteq> [] \<and> email s2 \<noteq> [] \<and> business s2 \<noteq> [] \<and> location s2 \<noteq> []"
    using that by (simp add: cycle_validating_filled)
  have fulfilled: "results (fst (cycle_webhook (Fulfilled status1 reply1) s1))
       = results (fst (cycle_webhook (Fulfilled status2 reply2) s2))"
    by (simp add: cycle_webhook_fulfilled)
  have webhook: "results (fst (cycle_webhook out s1)) = results (fst (cycle_webhook out s2))"
    if "results s1 = results s2"
    using that by (cases out) (simp_all add: cycle_webhook_fulfilled cycle_webhook_rejected)
  have inv_basic: "constant_only (run step_basic evs (mounted initial_basic))"
    by (rule run_invariant [where P = constant_only, OF constant_only_mounted constant_only_step_basic])
       (simp add: initial_basic_def)
  have inv_validating: "constant_only (run step_validating evs (mounted initial_lead))"
    by (rule run_invariant [where P = constant_only, OF constant_only_mounted constant_only_step_validating])
       (simp add: initial_lead_def)
  have inv_webhook: "constant_only (run step_webhook evs (mounted initial_lead))"
    by (rule run_invariant [where P = constant_only, OF constant_only_mounted constant_only_step_webhook])
       (simp add: initial_lead_def)
  have constant_basic: "results (cycle_basic b1) = Some simulatedResponse"
    by (simp add: cycle_basic_eq)
  have constant_validating: "results (cycle_validating s1) = Some simulatedResponse"
    if "contactName s1 \<noteq> [] \<and> phone s1 \<noteq> [] \<and> email s1 \<noteq> [] \<and> business s1 \<noteq> [] \<and> location s1 \<noteq> []"
    using that by (simp add: cycle_validating_filled)
  have constant_fulfilled:
    "results (fst (cycle_webhook (Fulfilled status1 reply1) s1)) = Some simulatedResponse"
    by (simp add: cycle_webhook_fulfilled)
  have kept_rejected: "results (fst (cycle_webhook (Rejected error) s1)) = results s1"
    by (simp add: cycle_webhook_rejected)
  from basic validating fulfilled webhook inv_basic inv_validating inv_webhook
    panel_basic_results [OF basic] panel_lead_results [OF fulfilled]
    panel_lead_results [OF validating] panel_lead_results [OF webhook]
    constant_basic constant_validating constant_fulfilled kept_rejected
  show ?thesis by blast
qed

theorem results_independent_of_fields_witness:
  "contactName (initial_lead\<lparr>contactName := ''Ann'', phone := ''020'', email := ''ann@example.org'',
                     business := ''Cafe'', location := ''London''\<rparr>) \<noteq> []
   \<and> contactName (initial_lead\<lparr>contactName := ''Bo'', phone := ''1'', email := ''b@x.io'',
                     business := ''Bar'', location := ''Leeds''\<rparr>) \<noteq> []
   \<and> results (cycle_validating
        (initial_lead\<lparr>contactName := ''Ann'', phone := ''020'', email := ''ann@example.org'',
                     business := ''Cafe'', location := ''London''\<rparr>))
       = results (cycle_validating
        (initial_lead\<lparr>contactName := ''Bo'', phone := ''1'', email := ''b@x.io'',
                     business := ''Bar'', location := ''Leeds''\<rparr>))
   \<and> results (fst (cycle_webhook (Rejected ''Failed to fetch'')
        (initial_lead\<lparr>contactName := ''Ann'', phone := ''020'', email := ''ann@example.org'',
                     business := ''Cafe'', location := ''London''\<rparr>)))
       = results (fst (cycle_webhook (Rejected ''Failed to fetch'')
        (initial_lead\<lparr>contactName := ''Bo'', phone := ''1'', email := ''b@x.io'',
                     business := ''Bar'', location := ''Leeds''\<rparr>)))
   \<and> (results (app (run step_webhook
          [Change Business ''Cafe'', Click, FetchSettles 0 (Fulfilled 200 ''Accepted''),
           Change Business ''Bar'', Click, FetchSettles 0 (Rejected ''Failed to fetch'')]
          (mounted initial_lead))) = None
      \<or> results (app (run step_webhook
          [Change Business ''Cafe'', Click, FetchSettles 0 (Fulfilled 200 ''Accepted''),
           Change Business ''Bar'', Click, FetchSettles 0 (Rejected ''Failed to fetch'')]
          (mounted initial_lead))) = Some simulatedResponse)"
proof -
  let ?s1 = "initial_lead\<lparr>contactName := ''Ann'', phone := ''020'', email := ''ann@example.org'',
                     business := ''Cafe'', location := ''London''\<rparr>"
  let ?s2 = "initial_lead\<lparr>contactName := ''Bo'', phone := ''1'', email := ''b@x.io'',
                     business := ''Bar'', location := ''Leeds''\<rparr>"
  let ?evs = "[Change Business ''Cafe'', Click, FetchSettles 0 (Fulfilled 200 ''Accepted''),
           Change Business ''Bar'', Click, FetchSettles 0 (Rejected ''Failed to fetch'')]"
  have f: "contactName ?s1 \<noteq> [] \<and> phone ?s1 \<noteq> [] \<and> email ?s1 \<noteq> [] \<and> business ?s1 \<noteq> []
           \<and> location ?s1 \<noteq> []
           \<and> contactName ?s2 \<noteq> [] \<and> phone ?s2 \<noteq> [] \<and> email ?s2 \<noteq> [] \<and> business ?s2 \<noteq> []
           \<and> location ?s2 \<noteq> []"
    by (simp add: initial_lead_def)
  have r: "results ?s1 = results ?s2"
    by (simp add: initial_lead_def)
  have v: "results (cycle_validating ?s1) = results (cycle_validating ?s2)"
    using results_independent_of_fields [where ?s1.0 = ?s1 and ?s2.0 = ?s2] f by blast
  have w: "results (fst (cycle_webhook (Rejected ''Failed to fetch'') ?s1))
         = results (fst (cycle_webhook (Rejected ''Failed to fetch'') ?s2))"
    using results_independent_of_fields
            [where ?s1.0 = ?s1 and ?s2.0 = ?s2 and out = "Rejected ''Failed to fetch''"] r
    by blast
  have c: "constant_only (run step_webhook ?evs (mounted initial_lead))"
    using results_independent_of_fields [where evs = ?evs] by blast
  from f v w c show ?thesis by (simp add: constant_only_def)
qed

text \<open>
  The claim as it is worded fails in the webhook variant: of two completed submit cycles on
  a freshly mounted page, with different field values, the one whose \<open>POST\<close> is fulfilled
  ends with the constant, and the one whose \<open>POST\<close> is rejected ends with null results and
  no results panel.
\<close>

theorem results_independent_counterexample:
  "results (fst (cycle_webhook (Fulfilled 200 ''Accepted'')
      (initial_lead\<lparr>contactName := ''Cy'', phone := ''7'', email := ''cy@x.io'',
                     business := ''Deli'', location := ''York''\<rparr>))) = Some simulatedResponse
   \<and> results (fst (cycle_webhook (Rejected ''Failed to fetch'')
      (initial_lead\<lparr>contactName := ''Di'', phone := ''8'', email := ''di@x.io'',
                     business := ''Inn'', location := ''Bath''\<rparr>))) = None
   \<and> by_class ''results'' (App_lead (fst (cycle_webhook (Rejected ''Failed to fetch'')
      (initial_lead\<lparr>contactName := ''Di'', phone := ''8'', email := ''di@x.io'',
                     business := ''Inn'', location := ''Bath''\<rparr>)))) = []
   \<and> results (fst (cycle_webhook (Rejected ''Failed to fetch'')
      (initial_lead\<lparr>contactName := ''Di'', phone := ''8'', email := ''di@x.io'',
                     business := ''Inn'', location := ''Bath''\<rparr>)))
       \<noteq> results (fst (cycle_webhook (Fulfilled 200 ''Accepted'')
      (initial_lead\<lparr>contactName := ''Cy'', phone := ''7'', email := ''cy@x.io'',
                     business := ''Deli'', location := ''York''\<rparr>)))"
  by (simp add: cycle_webhook_fulfilled cycle_webhook_rejected initial_lead_def panel_lead_none)

end
